theory Spec2Isabelle
  imports Complex_Main "HOL-Library.AList"
begin

section \<open>Data model (src/types/geometry.ts)\<close>

text \<open>
  A GeoJSON position is an array of numbers. A coordinate is a finite number or \<open>NaN\<close>.
  Finite JavaScript numbers are modelled as reals: rounding is abstracted away. Areas and
  lengths are reals; the one place where the code can produce a non-finite value from
  them, a division by a zero area, is written out in \<open>ratio_exceeds\<close> below.
\<close>

datatype Coordinate = Num real | NaN

type_synonym Position = "Coordinate list"

datatype Geometry =
    Point Position
  | MultiPoint "Position list"
  | LineString "Position list"
  | MultiLineString "Position list list"
  | Polygon "Position list list"
  | MultiPolygon "Position list list list"
  | GeometryCollection "Geometry list"

datatype ShapeType = polygon | rectangle | circle | line

text \<open>\<open>FeatureProperties\<close>; the optional fields are options.\<close>

record FeatureProperties =
  prop_id :: string
  prop_shapeType :: ShapeType
  prop_createdAt :: int
  prop_name :: "string option"
  prop_area :: "real option"
  prop_length :: "real option"
  prop_radius :: "real option"
  prop_center :: "Position option"

text \<open>\<open>Partial<FeatureProperties>\<close>: every field may be absent.\<close>

record PartialProperties =
  part_id :: "string option"
  part_shapeType :: "ShapeType option"
  part_createdAt :: "int option"
  part_name :: "string option"
  part_area :: "real option"
  part_length :: "real option"
  part_radius :: "real option"
  part_center :: "Position option"

record GeoFeature =
  feature_id :: string
  geometry :: Geometry
  shapeType :: ShapeType
  properties :: FeatureProperties

text \<open>
  \<open>ValidationResult\<close>: \<open>trimmedGeometry\<close> is \<open>None\<close> both when the field is absent and
  when it is \<open>null\<close> (every caller only tests it for truthiness).
\<close>

record ValidationResult =
  isValid :: bool
  trimmedGeometry :: "Geometry option"
  error_v :: "string option"

section \<open>The geometry library\<close>

text \<open>
  The code calls the third-party library turf for every geometric computation. Its
  functions are parameters of the model. A call either returns or throws; a turf
  \<open>Feature<Polygon | MultiPolygon>\<close> is represented by its geometry (the wrapper carries
  nothing else), and \<open>intersect\<close> and \<open>difference\<close> return \<open>null\<close> (here \<open>None\<close>) for an
  empty result.
\<close>

datatype 'a outcome = Returns 'a | Throws

record turf =
  turf_polygon :: "Position list list \<Rightarrow> Geometry outcome"
  turf_multiPolygon :: "Position list list list \<Rightarrow> Geometry outcome"
  turf_lineString :: "Position list \<Rightarrow> Geometry outcome"
  turf_intersect :: "Geometry \<Rightarrow> Geometry \<Rightarrow> Geometry option outcome"
  turf_difference :: "Geometry \<Rightarrow> Geometry \<Rightarrow> Geometry option outcome"
  turf_area :: "Geometry \<Rightarrow> real outcome"
  turf_length :: "Geometry \<Rightarrow> real outcome"

section \<open>Polygon utilities (src/utils/polygonUtils.ts)\<close>

definition isPolygonalShape :: "ShapeType \<Rightarrow> bool" where
  "isPolygonalShape st = (st \<in> set [polygon, rectangle, circle])"

definition getPolygonFromGeometry :: "turf \<Rightarrow> Geometry \<Rightarrow> Geometry option outcome" where
  "getPolygonFromGeometry T g =
     (case g of
        Polygon cs \<Rightarrow>
          (case turf_polygon T cs of Throws \<Rightarrow> Throws | Returns p \<Rightarrow> Returns (Some p))
      | MultiPolygon cs \<Rightarrow>
          (case turf_multiPolygon T cs of Throws \<Rightarrow> Throws | Returns p \<Rightarrow> Returns (Some p))
      | _ \<Rightarrow> Returns None)"

text \<open>
  \<open>a / b > 0.99\<close> on JavaScript numbers, for finite \<open>a\<close> and \<open>b\<close>: a zero denominator
  gives \<open>Infinity\<close> when the numerator is positive (the comparison holds), and
  \<open>-Infinity\<close> or \<open>NaN\<close> otherwise (it fails).
\<close>

definition ratio_exceeds :: "real \<Rightarrow> real \<Rightarrow> bool" where
  "ratio_exceeds a b = (if b = 0 then 0 < a else 99 / 100 < a / b)"

definition msg_contained :: string where
  "msg_contained = ''Cannot create a polygon that is fully contained within an existing polygon.''"

definition msg_contains :: string where
  "msg_contains = ''Cannot create a polygon that fully contains an existing polygon.''"

definition msg_removed :: string where
  "msg_removed = ''Polygon would be completely removed after trimming overlaps.''"

definition msg_failed :: string where
  "msg_failed = ''Failed to validate polygon overlap. Please try again.''"

definition rejected :: "string \<Rightarrow> ValidationResult" where
  "rejected m = \<lparr>isValid = False, trimmedGeometry = None, error_v = Some m\<rparr>"

definition accepted :: "Geometry option \<Rightarrow> ValidationResult" where
  "accepted g = \<lparr>isValid = True, trimmedGeometry = g, error_v = None\<rparr>"

text \<open>
  The map over the existing features, \<open>{id, polygon: getPolygonFromGeometry(f.geometry)}\<close>.
  It runs outside the \<open>try\<close> block, so a throwing constructor ends the whole call.
\<close>

fun map_polygons :: "turf \<Rightarrow> GeoFeature list \<Rightarrow> (string \<times> Geometry option) list outcome" where
  "map_polygons T [] = Returns []"
| "map_polygons T (f # fs) =
     (case getPolygonFromGeometry T (geometry f) of
        Throws \<Rightarrow> Throws
      | Returns p \<Rightarrow>
          (case map_polygons T fs of
             Throws \<Rightarrow> Throws
           | Returns ps \<Rightarrow> Returns ((feature_id f, p) # ps)))"

definition existingPolygons ::
  "turf \<Rightarrow> GeoFeature list \<Rightarrow> string option \<Rightarrow> (string \<times> Geometry option) list outcome" where
  "existingPolygons T existingFeatures excludeId =
     (case map_polygons T
             (filter (\<lambda>f. isPolygonalShape (shapeType f) \<and> Some (feature_id f) \<noteq> excludeId)
                existingFeatures) of
        Throws \<Rightarrow> Throws
      | Returns ps \<Rightarrow> Returns (filter (\<lambda>p. snd p \<noteq> None) ps))"

text \<open>
  One iteration of the \<open>for\<close> loop with its \<open>try\<close>/\<open>catch\<close>: \<open>Inl r\<close> is \<open>return r\<close>,
  \<open>Inr (currentPolygon, wasTrimmed)\<close> goes on to the next existing polygon.
\<close>

definition overlap_step ::
  "turf \<Rightarrow> Geometry \<times> bool \<Rightarrow> string \<times> Geometry option \<Rightarrow> ValidationResult + Geometry \<times> bool" where
  "overlap_step T st existing =
     (case snd existing of
        None \<Rightarrow> Inr st
      | Some ep \<Rightarrow>
          (case turf_intersect T (fst st) ep of
             Throws \<Rightarrow> Inl (rejected msg_failed)
           | Returns None \<Rightarrow> Inr st
           | Returns (Some intersection) \<Rightarrow>
               (case turf_area T (fst st) of
                  Throws \<Rightarrow> Inl (rejected msg_failed)
                | Returns currentArea \<Rightarrow>
                    (case turf_area T ep of
                       Throws \<Rightarrow> Inl (rejected msg_failed)
                     | Returns existingArea \<Rightarrow>
                         (case turf_area T intersection of
                            Throws \<Rightarrow> Inl (rejected msg_failed)
                          | Returns intersectionArea \<Rightarrow>
                              if ratio_exceeds intersectionArea currentArea
                              then Inl (rejected msg_contained)
                              else if ratio_exceeds intersectionArea existingArea
                              then Inl (rejected msg_contains)
                              else
                                (case turf_difference T (fst st) ep of
                                   Throws \<Rightarrow> Inl (rejected msg_failed)
                                 | Returns None \<Rightarrow> Inl (rejected msg_removed)
                                 | Returns (Some d) \<Rightarrow> Inr (d, True)))))))"

fun overlap_loop ::
  "turf \<Rightarrow> Geometry \<times> bool \<Rightarrow> (string \<times> Geometry option) list \<Rightarrow> ValidationResult + Geometry \<times> bool" where
  "overlap_loop T st [] = Inr st"
| "overlap_loop T st (e # es) =
     (case overlap_step T st e of
        Inl r \<Rightarrow> Inl r
      | Inr st' \<Rightarrow> overlap_loop T st' es)"

text \<open>The statement after the loop.\<close>

definition loop_result :: "ValidationResult + Geometry \<times> bool \<Rightarrow> ValidationResult" where
  "loop_result x =
     (case x of
        Inl r \<Rightarrow> r
      | Inr st \<Rightarrow> accepted (if snd st then Some (fst st) else None))"

definition validatePolygonOverlap ::
  "turf \<Rightarrow> Geometry \<Rightarrow> GeoFeature list \<Rightarrow> string option \<Rightarrow> ValidationResult outcome" where
  "validatePolygonOverlap T newGeometry existingFeatures excludeId =
     (case getPolygonFromGeometry T newGeometry of
        Throws \<Rightarrow> Throws
      | Returns None \<Rightarrow> Returns (accepted None)
      | Returns (Some newPolygonFeature) \<Rightarrow>
          (case existingPolygons T existingFeatures excludeId of
             Throws \<Rightarrow> Throws
           | Returns eps \<Rightarrow>
               Returns (loop_result (overlap_loop T (newPolygonFeature, False) eps))))"

section \<open>The validation hook (src/hooks/useOverlapValidation.ts)\<close>

text \<open>
  The hook keeps a cache of results in a JavaScript \<open>Map\<close> (insertion-ordered; here an
  association list) and the time of the last validation. The key is
  \<open>JSON.stringify({geometry, excludeId, featureCount})\<close>, modelled by the triple itself.
  \<open>Date.now()\<close> is an explicit argument.
\<close>

type_synonym CacheKey = "Geometry \<times> string option \<times> nat"

record ValidationCache =
  validationCache :: "(CacheKey \<times> ValidationResult) list"
  lastValidationTime :: int

definition VALIDATION_DEBOUNCE_MS :: int where
  "VALIDATION_DEBOUNCE_MS = 50"

definition getCacheKey :: "GeoFeature list \<Rightarrow> Geometry \<Rightarrow> string option \<Rightarrow> CacheKey" where
  "getCacheKey fs g excludeId = (g, excludeId, length fs)"

definition validateNewPolygon ::
  "turf \<Rightarrow> GeoFeature list \<Rightarrow> ValidationCache \<Rightarrow> int \<Rightarrow> Geometry \<Rightarrow> ShapeType
     \<Rightarrow> ValidationResult outcome \<times> ValidationCache" where
  "validateNewPolygon T fs cache now g st =
     (if \<not> isPolygonalShape st then (Returns (accepted None), cache)
      else
        let cacheKey = getCacheKey fs g None in
        (case map_of (validationCache cache) cacheKey of
           Some cachedResult \<Rightarrow>
             if now - lastValidationTime cache < VALIDATION_DEBOUNCE_MS
             then (Returns cachedResult, cache)
             else
               (case validatePolygonOverlap T g fs None of
                  Throws \<Rightarrow> (Throws, cache)
                | Returns result \<Rightarrow>
                    let es = AList.update cacheKey result (validationCache cache) in
                    (Returns result,
                     \<lparr>validationCache = (if length es > 100 then tl es else es),
                      lastValidationTime = now\<rparr>))
         | None \<Rightarrow>
             (case validatePolygonOverlap T g fs None of
                Throws \<Rightarrow> (Throws, cache)
              | Returns result \<Rightarrow>
                  let es = AList.update cacheKey result (validationCache cache) in
                  (Returns result,
                   \<lparr>validationCache = (if length es > 100 then tl es else es),
                    lastValidationTime = now\<rparr>))))"

definition validateEditedPolygon ::
  "turf \<Rightarrow> GeoFeature list \<Rightarrow> ValidationCache \<Rightarrow> int \<Rightarrow> Geometry \<Rightarrow> ShapeType \<Rightarrow> string
     \<Rightarrow> ValidationResult outcome \<times> ValidationCache" where
  "validateEditedPolygon T fs cache now g st featureId =
     (if \<not> isPolygonalShape st then (Returns (accepted None), cache)
      else
        let cacheKey = getCacheKey fs g (Some featureId) in
        (case map_of (validationCache cache) cacheKey of
           Some cachedResult \<Rightarrow>
             if now - lastValidationTime cache < VALIDATION_DEBOUNCE_MS
             then (Returns cachedResult, cache)
             else
               (case validatePolygonOverlap T g fs (Some featureId) of
                  Throws \<Rightarrow> (Throws, cache)
                | Returns result \<Rightarrow>
                    (Returns result,
                     \<lparr>validationCache = AList.update cacheKey result (validationCache cache),
                      lastValidationTime = now\<rparr>))
         | None \<Rightarrow>
             (case validatePolygonOverlap T g fs (Some featureId) of
                Throws \<Rightarrow> (Throws, cache)
              | Returns result \<Rightarrow>
                  (Returns result,
                   \<lparr>validationCache = AList.update cacheKey result (validationCache cache),
                    lastValidationTime = now\<rparr>))))"

section \<open>Shape limits (src/config/shapeLimits.ts)\<close>

fun shapeLimits :: "ShapeType \<Rightarrow> nat" where
  "shapeLimits polygon = 10"
| "shapeLimits rectangle = 5"
| "shapeLimits circle = 5"
| "shapeLimits line = 20"

definition isLimitReached :: "ShapeType \<Rightarrow> nat \<Rightarrow> bool" where
  "isLimitReached st currentCount = (currentCount \<ge> shapeLimits st)"

section \<open>The feature store (src/store/featureStore.ts)\<close>

datatype ToastType = Success | Error | Warning | Info

record ToastMessage =
  toast_id :: string
  toast_type :: ToastType
  message :: string
  duration :: "int option"

record HistoryState =
  past :: "GeoFeature list list"
  present :: "GeoFeature list"
  future :: "GeoFeature list list"

record FeatureState =
  features :: "GeoFeature list"
  selectedFeatureId :: "string option"
  error :: "string option"
  toasts :: "ToastMessage list"
  history :: HistoryState
  shapeCounts :: "ShapeType \<Rightarrow> int"

text \<open>
  The values the code draws from the clock and the random generator
  (\<open>generateFeatureId\<close>, \<open>generateToastId\<close>, \<open>Date.now()\<close>) are explicit inputs.
\<close>

record Fresh =
  fresh_feature_id :: string
  fresh_toast_id :: string
  fresh_now :: int

definition MAX_HISTORY_LENGTH :: nat where
  "MAX_HISTORY_LENGTH = 50"

text \<open>\<open>xs.slice(-n)\<close>: the last \<open>n\<close> elements, all of them when there are fewer.\<close>

definition slice_last :: "nat \<Rightarrow> 'a list \<Rightarrow> 'a list" where
  "slice_last n xs = drop (length xs - n) xs"

definition pushToHistory :: "HistoryState \<Rightarrow> GeoFeature list \<Rightarrow> HistoryState" where
  "pushToHistory h newPresent =
     \<lparr>past = slice_last MAX_HISTORY_LENGTH (past h @ [present h]),
      present = newPresent,
      future = []\<rparr>"

text \<open>
  A count as a template string renders it (\<open>`${count}`\<close>): its decimal digits, most
  significant first.
\<close>

definition digit :: "nat \<Rightarrow> char" where
  "digit d = char_of (d + of_char (CHR ''0''))"

function number_toString :: "nat \<Rightarrow> string" where
  "number_toString n =
     (if 10 \<le> n then number_toString (n div 10) @ [digit (n mod 10)] else [digit n])"
  by pat_completeness auto
termination
  by (relation "measure (\<lambda>n. n)") auto

fun shapeType_string :: "ShapeType \<Rightarrow> string" where
  "shapeType_string polygon = ''polygon''"
| "shapeType_string rectangle = ''rectangle''"
| "shapeType_string circle = ''circle''"
| "shapeType_string line = ''line''"

definition toUpperCase_char :: "char \<Rightarrow> char" where
  "toUpperCase_char c =
     (let n = (of_char c :: nat) in if 97 \<le> n \<and> n \<le> 122 then char_of (n - 32) else c)"

definition generateShapeName :: "ShapeType \<Rightarrow> nat \<Rightarrow> string" where
  "generateShapeName st count =
     (case shapeType_string st of
        [] \<Rightarrow> []
      | c # cs \<Rightarrow> toUpperCase_char c # cs) @ ''-'' @ number_toString (count + 1)"

definition no_properties :: PartialProperties where
  "no_properties =
     \<lparr>part_id = None, part_shapeType = None, part_createdAt = None, part_name = None,
      part_area = None, part_length = None, part_radius = None, part_center = None\<rparr>"

text \<open>The object spread \<open>{...p, ...q}\<close>: a field present in \<open>q\<close> replaces the one of \<open>p\<close>.\<close>

definition spread :: "FeatureProperties \<Rightarrow> PartialProperties \<Rightarrow> FeatureProperties" where
  "spread p q =
     \<lparr>prop_id = (case part_id q of None \<Rightarrow> prop_id p | Some v \<Rightarrow> v),
      prop_shapeType = (case part_shapeType q of None \<Rightarrow> prop_shapeType p | Some v \<Rightarrow> v),
      prop_createdAt = (case part_createdAt q of None \<Rightarrow> prop_createdAt p | Some v \<Rightarrow> v),
      prop_name = (case part_name q of None \<Rightarrow> prop_name p | Some v \<Rightarrow> Some v),
      prop_area = (case part_area q of None \<Rightarrow> prop_area p | Some v \<Rightarrow> Some v),
      prop_length = (case part_length q of None \<Rightarrow> prop_length p | Some v \<Rightarrow> Some v),
      prop_radius = (case part_radius q of None \<Rightarrow> prop_radius p | Some v \<Rightarrow> Some v),
      prop_center = (case part_center q of None \<Rightarrow> prop_center p | Some v \<Rightarrow> Some v)\<rparr>"

definition calculateArea :: "turf \<Rightarrow> Geometry \<Rightarrow> real outcome" where
  "calculateArea T g =
     (case getPolygonFromGeometry T g of
        Throws \<Rightarrow> Throws
      | Returns None \<Rightarrow> Returns 0
      | Returns (Some p) \<Rightarrow> turf_area T p)"

definition calculateLength :: "turf \<Rightarrow> Geometry \<Rightarrow> real outcome" where
  "calculateLength T g =
     (case g of
        LineString cs \<Rightarrow>
          (case turf_lineString T cs of Throws \<Rightarrow> Throws | Returns l \<Rightarrow> turf_length T l)
      | _ \<Rightarrow> Returns 0)"

definition calculateMetadata :: "turf \<Rightarrow> Geometry \<Rightarrow> ShapeType \<Rightarrow> PartialProperties outcome" where
  "calculateMetadata T g st =
     (if st = line
      then (case calculateLength T g of
              Throws \<Rightarrow> Throws
            | Returns l \<Rightarrow> Returns (no_properties\<lparr>part_length := Some l\<rparr>))
      else (case calculateArea T g of
              Throws \<Rightarrow> Throws
            | Returns a \<Rightarrow> Returns (no_properties\<lparr>part_area := Some a\<rparr>)))"

definition initial_store :: FeatureState where
  "initial_store =
     \<lparr>features = [], selectedFeatureId = None, error = None, toasts = [],
      history = \<lparr>past = [], present = [], future = []\<rparr>,
      shapeCounts = (\<lambda>_. 0)\<rparr>"

definition getFeatureCount :: "FeatureState \<Rightarrow> ShapeType \<Rightarrow> nat" where
  "getFeatureCount s st = length (filter (\<lambda>f. shapeType f = st) (features s))"

definition canAddFeature :: "FeatureState \<Rightarrow> ShapeType \<Rightarrow> bool" where
  "canAddFeature s st = (getFeatureCount s st < shapeLimits st)"

text \<open>
  \<open>addFeature\<close> returns the new id, or \<open>null\<close> at the limit; it throws, before any \<open>set\<close>,
  when the metadata computation throws.
\<close>

definition addFeature ::
  "turf \<Rightarrow> FeatureState \<Rightarrow> Geometry \<Rightarrow> ShapeType \<Rightarrow> PartialProperties \<Rightarrow> Fresh
     \<Rightarrow> string option outcome \<times> FeatureState" where
  "addFeature T s g st additionalProps fr =
     (let currentCount = length (filter (\<lambda>f. shapeType f = st) (features s)) in
      if currentCount \<ge> shapeLimits st
      then
        (Returns None,
         s\<lparr>error := Some (''Maximum '' @ number_toString (shapeLimits st) @ '' ''
                     @ shapeType_string st @ ''(s) allowed. Limit reached.''),
           toasts := toasts s @
             [\<lparr>toast_id = fresh_toast_id fr, toast_type = Error,
               message = ''Limit reached: Maximum '' @ number_toString (shapeLimits st) @ '' ''
                     @ shapeType_string st @ ''(s) allowed.'',
               duration = Some 4000\<rparr>]\<rparr>)
      else
        (case calculateMetadata T g st of
           Throws \<Rightarrow> (Throws, s)
         | Returns metadata \<Rightarrow>
             let fid = fresh_feature_id fr;
                 newFeature =
                   \<lparr>feature_id = fid, geometry = g, shapeType = st,
                    properties =
                      spread (spread
                        \<lparr>prop_id = fid, prop_shapeType = st, prop_createdAt = fresh_now fr,
                         prop_name = Some (generateShapeName st currentCount),
                         prop_area = None, prop_length = None, prop_radius = None,
                         prop_center = None\<rparr> metadata) additionalProps\<rparr>;
                 newFeatures = features s @ [newFeature]
             in (Returns (Some fid),
                 s\<lparr>features := newFeatures,
                   error := None,
                   history := pushToHistory (history s) newFeatures,
                   shapeCounts := (shapeCounts s)(st := shapeCounts s st + 1)\<rparr>)))"

definition updateFeature ::
  "turf \<Rightarrow> FeatureState \<Rightarrow> string \<Rightarrow> Geometry \<Rightarrow> unit outcome \<times> FeatureState" where
  "updateFeature T s fid g =
     (case find (\<lambda>f. feature_id f = fid) (features s) of
        None \<Rightarrow> (Returns (), s)
      | Some feature \<Rightarrow>
          (case calculateMetadata T g (shapeType feature) of
             Throws \<Rightarrow> (Throws, s)
           | Returns metadata \<Rightarrow>
               let newFeatures =
                     map (\<lambda>f. if feature_id f = fid
                               then f\<lparr>geometry := g, properties := spread (properties f) metadata\<rparr>
                               else f) (features s)
               in (Returns (),
                   s\<lparr>features := newFeatures,
                     history := pushToHistory (history s) newFeatures\<rparr>)))"

definition removeFeature :: "FeatureState \<Rightarrow> string \<Rightarrow> FeatureState" where
  "removeFeature s fid =
     (let newFeatures = filter (\<lambda>f. feature_id f \<noteq> fid) (features s) in
      s\<lparr>features := newFeatures,
        selectedFeatureId := (if selectedFeatureId s = Some fid then None else selectedFeatureId s),
        history := pushToHistory (history s) newFeatures\<rparr>)"

definition selectFeature :: "FeatureState \<Rightarrow> string option \<Rightarrow> FeatureState" where
  "selectFeature s fid = s\<lparr>selectedFeatureId := fid\<rparr>"

definition clearFeatures :: "FeatureState \<Rightarrow> FeatureState" where
  "clearFeatures s =
     s\<lparr>features := [], selectedFeatureId := None, error := None,
       history := pushToHistory (history s) [],
       shapeCounts := (\<lambda>_. 0)\<rparr>"

definition setError :: "FeatureState \<Rightarrow> string option \<Rightarrow> FeatureState" where
  "setError s e = s\<lparr>error := e\<rparr>"

definition addToast :: "FeatureState \<Rightarrow> ToastType \<Rightarrow> string \<Rightarrow> int option \<Rightarrow> string \<Rightarrow> FeatureState" where
  "addToast s ty msg dur tid =
     s\<lparr>toasts := toasts s @
         [\<lparr>toast_id = tid, toast_type = ty, message = msg,
           duration = Some (case dur of None \<Rightarrow> 4000 | Some d \<Rightarrow> d)\<rparr>]\<rparr>"

definition removeToast :: "FeatureState \<Rightarrow> string \<Rightarrow> FeatureState" where
  "removeToast s tid = s\<lparr>toasts := filter (\<lambda>t. toast_id t \<noteq> tid) (toasts s)\<rparr>"

definition undo :: "FeatureState \<Rightarrow> FeatureState" where
  "undo s =
     (if length (past (history s)) = 0 then s
      else
        let previous = last (past (history s));
            newPast = butlast (past (history s))
        in s\<lparr>features := previous,
             history := \<lparr>past = newPast, present = previous,
                         future = features s # future (history s)\<rparr>\<rparr>)"

definition redo :: "FeatureState \<Rightarrow> FeatureState" where
  "redo s =
     (if length (future (history s)) = 0 then s
      else
        let next = hd (future (history s));
            newFuture = tl (future (history s))
        in s\<lparr>features := next,
             history := \<lparr>past = past (history s) @ [features s], present = next,
                         future = newFuture\<rparr>\<rparr>)"

definition canUndo :: "FeatureState \<Rightarrow> bool" where
  "canUndo s = (length (past (history s)) > 0)"

definition canRedo :: "FeatureState \<Rightarrow> bool" where
  "canRedo s = (length (future (history s)) > 0)"

definition setFeatures :: "FeatureState \<Rightarrow> GeoFeature list \<Rightarrow> FeatureState" where
  "setFeatures s fs = s\<lparr>features := fs, history := pushToHistory (history s) fs\<rparr>"

definition importFeatures :: "FeatureState \<Rightarrow> GeoFeature list \<Rightarrow> FeatureState" where
  "importFeatures s fs =
     (let newFeatures = features s @ fs in
      s\<lparr>features := newFeatures, history := pushToHistory (history s) newFeatures\<rparr>)"

section \<open>GeoJSON import (src/components/ImportButton.tsx)\<close>

definition detectShapeType :: "Geometry \<Rightarrow> ShapeType option" where
  "detectShapeType g =
     (case g of
        Polygon _ \<Rightarrow> Some polygon
      | LineString _ \<Rightarrow> Some line
      | MultiPolygon _ \<Rightarrow> Some polygon
      | _ \<Rightarrow> None)"

text \<open>A feature of the parsed file: its geometry and its properties may be \<open>null\<close>.\<close>

record FileFeature =
  file_geometry :: "Geometry option"
  file_properties :: "PartialProperties option"

text \<open>The clock and generator values one iteration of the import loop draws.\<close>

record ImportFresh =
  imp_feature_id :: string
  imp_validate_now :: int
  imp_created_now :: int

record ImportState =
  importedFeatures :: "GeoFeature list"
  skippedCount :: nat
  trimmedCount :: nat
  hookCache :: ValidationCache

definition skip_feature :: "ImportState \<Rightarrow> ImportState" where
  "skip_feature st = st\<lparr>skippedCount := skippedCount st + 1\<rparr>"

text \<open>The tail of the loop body, from \<open>generateFeatureId()\<close> to \<open>importedFeatures.push\<close>.\<close>

definition push_imported ::
  "ImportState \<Rightarrow> FileFeature \<Rightarrow> ImportFresh \<Rightarrow> ShapeType \<Rightarrow> Geometry \<Rightarrow> ImportState" where
  "push_imported st feature fr shp finalGeometry =
     (let fid = imp_feature_id fr;
          existingName = (case file_properties feature of None \<Rightarrow> None | Some ps \<Rightarrow> part_name ps);
          nm = (case existingName of
                  None \<Rightarrow> ''Imported-'' @ shapeType_string shp @ ''-''
                            @ number_toString (length (importedFeatures st) + 1)
                | Some n \<Rightarrow>
                    if n = [] then ''Imported-'' @ shapeType_string shp @ ''-''
                                    @ number_toString (length (importedFeatures st) + 1)
                    else n);
          base = \<lparr>prop_id = fid, prop_shapeType = shp, prop_createdAt = imp_created_now fr,
                  prop_name = Some nm, prop_area = None, prop_length = None,
                  prop_radius = None, prop_center = None\<rparr>;
          newFeature =
            \<lparr>feature_id = fid, geometry = finalGeometry, shapeType = shp,
             properties = (case file_properties feature of None \<Rightarrow> base | Some ps \<Rightarrow> spread base ps)\<rparr>
      in st\<lparr>importedFeatures := importedFeatures st @ [newFeature]\<rparr>)"

text \<open>
  One iteration of \<open>for (const feature of featuresToImport)\<close>. \<open>s\<close> is the store
  (\<open>getFeatureCount\<close> reads it), \<open>hookFeatures\<close> the feature list the validation hook
  closed over.
\<close>

definition import_step ::
  "turf \<Rightarrow> FeatureState \<Rightarrow> GeoFeature list \<Rightarrow> ImportState \<Rightarrow> FileFeature \<times> ImportFresh
     \<Rightarrow> ImportState outcome" where
  "import_step T s hookFeatures st item =
     (let feature = fst item; fr = snd item in
      case file_geometry feature of
        None \<Rightarrow> Returns (skip_feature st)
      | Some g \<Rightarrow>
          (case detectShapeType g of
             None \<Rightarrow> Returns (skip_feature st)
           | Some shp \<Rightarrow>
               let currentCount = getFeatureCount s shp
                     + length (filter (\<lambda>f. shapeType f = shp) (importedFeatures st)) in
               if currentCount \<ge> shapeLimits shp then Returns (skip_feature st)
               else if isPolygonalShape shp then
                 (case validateNewPolygon T hookFeatures (hookCache st) (imp_validate_now fr) g shp of
                    (Throws, c) \<Rightarrow> Throws
                  | (Returns validation, c) \<Rightarrow>
                      if \<not> isValid validation then Returns (skip_feature (st\<lparr>hookCache := c\<rparr>))
                      else
                        (case trimmedGeometry validation of
                           Some tg \<Rightarrow>
                             Returns (push_imported
                               (st\<lparr>hookCache := c, trimmedCount := trimmedCount st + 1\<rparr>)
                               feature fr shp tg)
                         | None \<Rightarrow>
                             Returns (push_imported (st\<lparr>hookCache := c\<rparr>) feature fr shp g)))
               else Returns (push_imported st feature fr shp g)))"

fun import_loop ::
  "turf \<Rightarrow> FeatureState \<Rightarrow> GeoFeature list \<Rightarrow> ImportState \<Rightarrow> (FileFeature \<times> ImportFresh) list
     \<Rightarrow> ImportState outcome" where
  "import_loop T s hookFeatures st [] = Returns st"
| "import_loop T s hookFeatures st (item # items) =
     (case import_step T s hookFeatures st item of
        Throws \<Rightarrow> Throws
      | Returns st' \<Rightarrow> import_loop T s hookFeatures st' items)"

definition import_message :: "ImportState \<Rightarrow> string" where
  "import_message st =
     ''Successfully imported '' @ number_toString (length (importedFeatures st)) @ '' feature(s).''
     @ (if trimmedCount st > 0
        then '' '' @ number_toString (trimmedCount st) @ '' were trimmed to avoid overlaps.''
        else [])
     @ (if skippedCount st > 0
        then '' '' @ number_toString (skippedCount st) @ '' were skipped.''
        else [])"

text \<open>
  The body of \<open>reader.onload\<close> once the file is parsed into its list of features. The
  hook's feature list is the store's, as of the render the handler belongs to.
\<close>

definition handleFileSelect ::
  "turf \<Rightarrow> FeatureState \<Rightarrow> ValidationCache \<Rightarrow> (FileFeature \<times> ImportFresh) list \<Rightarrow> string
     \<Rightarrow> FeatureState" where
  "handleFileSelect T s cache featuresToImport toastId =
     (case import_loop T s (features s)
             \<lparr>importedFeatures = [], skippedCount = 0, trimmedCount = 0, hookCache = cache\<rparr>
             featuresToImport of
        Throws \<Rightarrow>
          addToast s Error ''Failed to parse GeoJSON file. Please check the format.'' None toastId
      | Returns st \<Rightarrow>
          if length (importedFeatures st) > 0
          then addToast (importFeatures s (importedFeatures st)) Success (import_message st) None toastId
          else addToast s Warning ''No valid features found to import.'' None toastId)"

section \<open>The store as a transition system\<close>

datatype Action =
    AddFeature Geometry ShapeType PartialProperties Fresh
  | UpdateFeature string Geometry
  | RemoveFeature string
  | SelectFeature "string option"
  | ClearFeatures
  | SetError "string option"
  | AddToast ToastType string "int option" string
  | RemoveToast string
  | Undo
  | Redo
  | SetFeatures "GeoFeature list"
  | ImportFeatures "GeoFeature list"

fun step :: "turf \<Rightarrow> FeatureState \<Rightarrow> Action \<Rightarrow> FeatureState" where
  "step T s (AddFeature g st ps fr) = snd (addFeature T s g st ps fr)"
| "step T s (UpdateFeature fid g) = snd (updateFeature T s fid g)"
| "step T s (RemoveFeature fid) = removeFeature s fid"
| "step T s (SelectFeature fid) = selectFeature s fid"
| "step T s ClearFeatures = clearFeatures s"
| "step T s (SetError e) = setError s e"
| "step T s (AddToast ty msg dur tid) = addToast s ty msg dur tid"
| "step T s (RemoveToast tid) = removeToast s tid"
| "step T s Undo = undo s"
| "step T s Redo = redo s"
| "step T s (SetFeatures fs) = setFeatures s fs"
| "step T s (ImportFeatures fs) = importFeatures s fs"

fun run :: "turf \<Rightarrow> FeatureState \<Rightarrow> Action list \<Rightarrow> FeatureState" where
  "run T s [] = s"
| "run T s (a # as) = run T (step T s a) as"

text \<open>
  The states the application can be in: the initial store, possibly rehydrated by the
  \<open>persist\<close> middleware (which restores \<open>features\<close> and \<open>shapeCounts\<close> only), and
  whatever the actions make of it.
\<close>

inductive reachable :: "turf \<Rightarrow> FeatureState \<Rightarrow> bool" for T :: turf where
  reachable_initial: "reachable T initial_store"
| reachable_rehydrated: "reachable T (initial_store\<lparr>features := fs, shapeCounts := cs\<rparr>)"
| reachable_step: "reachable T s \<Longrightarrow> reachable T (step T s a)"



section \<open>A small exact geometry library, to run the model\<close>

text \<open>
  An instance of the library parameters on which the definitions above can be evaluated:
  shapes are unions of unit cells of the integer grid, a cell being the polygon with ring
  \<open>cell_ring\<close>. Intersection, difference and area are exact on such shapes. The
  constructors make the checks turf's own do: \<open>polygon\<close> refuses a ring of fewer than four
  positions or whose first and last positions differ, \<open>multiPolygon\<close> checks nothing,
  \<open>lineString\<close> refuses fewer than two positions.
\<close>

definition cell_ring :: "Position \<Rightarrow> Position list" where
  "cell_ring c =
     (case c of
        [Num x, Num y] \<Rightarrow>
          [[Num x, Num y], [Num (x + 1), Num y], [Num (x + 1), Num (y + 1)],
           [Num x, Num (y + 1)], [Num x, Num y]]
      | _ \<Rightarrow> [c])"

definition cell :: "real \<Rightarrow> real \<Rightarrow> Geometry" where
  "cell x y = Polygon [cell_ring [Num x, Num y]]"

fun cells_of_polygon :: "Position list list \<Rightarrow> Position list" where
  "cells_of_polygon ((p # ps) # rs) = [p]"
| "cells_of_polygon _ = []"

fun cells_of :: "Geometry \<Rightarrow> Position list" where
  "cells_of (Polygon rs) = cells_of_polygon rs"
| "cells_of (MultiPolygon ps) = concat (map cells_of_polygon ps)"
| "cells_of _ = []"

definition of_cells :: "Position list \<Rightarrow> Geometry option" where
  "of_cells cs = (if cs = [] then None else Some (MultiPolygon (map (\<lambda>c. [cell_ring c]) cs)))"

text \<open>Strict equality \<open>===\<close> of two coordinates: \<open>NaN\<close> equals nothing, itself included.\<close>

fun strict_equal :: "Coordinate \<Rightarrow> Coordinate \<Rightarrow> bool" where
  "strict_equal (Num a) (Num b) = (a = b)"
| "strict_equal _ _ = False"

definition ring_ok :: "Position list \<Rightarrow> bool" where
  "ring_ok r = (length r \<ge> 4 \<and> list_all2 strict_equal (last r) (hd r))"

definition grid_turf :: turf where
  "grid_turf =
     \<lparr>turf_polygon = (\<lambda>cs. if list_all ring_ok cs then Returns (Polygon cs) else Throws),
      turf_multiPolygon = (\<lambda>cs. Returns (MultiPolygon cs)),
      turf_lineString = (\<lambda>cs. if length cs < 2 then Throws else Returns (LineString cs)),
      turf_intersect = (\<lambda>a b. Returns (of_cells (filter (\<lambda>c. c \<in> set (cells_of b)) (cells_of a)))),
      turf_difference = (\<lambda>a b. Returns (of_cells (filter (\<lambda>c. c \<notin> set (cells_of b)) (cells_of a)))),
      turf_area = (\<lambda>g. Returns (real (length (cells_of g)))),
      turf_length = (\<lambda>g. Returns 0)\<rparr>"

section \<open>Concrete inputs\<close>

text \<open>Features, clock values and action sequences on which the model is run below.\<close>

definition block :: "real \<Rightarrow> real \<Rightarrow> Geometry" where
  "block x y =
     MultiPolygon [[cell_ring [Num x, Num y]], [cell_ring [Num (x + 1), Num y]],
                   [cell_ring [Num x, Num (y + 1)]], [cell_ring [Num (x + 1), Num (y + 1)]]]"

definition mk_feature :: "string \<Rightarrow> ShapeType \<Rightarrow> Geometry \<Rightarrow> GeoFeature" where
  "mk_feature fid st g =
     \<lparr>feature_id = fid, geometry = g, shapeType = st,
      properties = \<lparr>prop_id = fid, prop_shapeType = st, prop_createdAt = 0, prop_name = None,
                    prop_area = None, prop_length = None, prop_radius = None,
                    prop_center = None\<rparr>\<rparr>"

definition fresh :: "nat \<Rightarrow> Fresh" where
  "fresh n =
     \<lparr>fresh_feature_id = ''feature-'' @ number_toString n,
      fresh_toast_id = ''toast-'' @ number_toString n,
      fresh_now = int n\<rparr>"

definition add_polygons :: "nat \<Rightarrow> Action list" where
  "add_polygons k =
     map (\<lambda>n. AddFeature (cell (real n) 0) polygon no_properties (fresh n)) [0..<k]"

definition empty_cache :: ValidationCache where
  "empty_cache = \<lparr>validationCache = [], lastValidationTime = 0\<rparr>"

definition file_square :: "nat \<Rightarrow> FileFeature \<times> ImportFresh" where
  "file_square n =
     (\<lparr>file_geometry = Some (cell 0 0), file_properties = None\<rparr>,
      \<lparr>imp_feature_id = ''feature-'' @ number_toString n, imp_validate_now = 1000 + int n,
       imp_created_now = 1000 + int n\<rparr>)"

text \<open>
  The laws of an exact clipping library, under which the geometric part of the trimming
  property is stated: areas are defined and not negative, a shape is the disjoint union of
  its difference from and its intersection with another shape, the difference does not
  meet the shape subtracted, and subtracting cannot make a shape meet one it was disjoint
  from.
\<close>

definition clip_laws :: "turf \<Rightarrow> bool" where
  "clip_laws T \<longleftrightarrow>
     (\<forall>g. \<exists>x. turf_area T g = Returns x \<and> 0 \<le> x)
   \<and> (\<forall>a b d i x y z.
        turf_difference T a b = Returns (Some d) \<and> turf_intersect T a b = Returns (Some i)
        \<and> turf_area T a = Returns x \<and> turf_area T i = Returns y \<and> turf_area T d = Returns z
        \<longrightarrow> z = x - y)
   \<and> (\<forall>a b d. turf_difference T a b = Returns (Some d) \<longrightarrow> turf_intersect T d b = Returns None)
   \<and> (\<forall>a b d e.
        turf_difference T a b = Returns (Some d) \<and> turf_intersect T a e = Returns None
        \<longrightarrow> turf_intersect T d e = Returns None)"

definition area_of :: "turf \<Rightarrow> Geometry \<Rightarrow> real" where
  "area_of T g = (case turf_area T g of Returns x \<Rightarrow> x | Throws \<Rightarrow> 0)"

definition failing_turf :: turf where
  "failing_turf = grid_turf\<lparr>turf_intersect := (\<lambda>a b. Throws)\<rparr>"


section \<open>The overlap loop\<close>

lemma overlap_loop_append:
  "overlap_loop T st (pre @ es) =
     (case overlap_loop T st pre of Inl r \<Rightarrow> Inl r | Inr st' \<Rightarrow> overlap_loop T st' es)"
  by (induction pre arbitrary: st) (auto split: sum.splits)

text \<open>
  What one iteration can do: return a rejection, leave the running polygon as it is, or
  replace it with its difference from an existing polygon it intersects.
\<close>

lemma overlap_step_char:
  "case overlap_step T st e of
     Inl r \<Rightarrow> \<not> isValid r
   | Inr st' \<Rightarrow>
       st' = st
       \<or> (\<exists>ep i d. snd e = Some ep \<and> turf_intersect T (fst st) ep = Returns (Some i)
             \<and> turf_difference T (fst st) ep = Returns (Some d) \<and> st' = (d, True))"
  by (simp add: overlap_step_def rejected_def split: option.split outcome.split)

lemma overlap_step_Inl_invalid: "overlap_step T st e = Inl r \<Longrightarrow> \<not> isValid r"
  using overlap_step_char [where T = T and st = st and e = e] by simp

lemma overlap_step_Inr:
  "overlap_step T st e = Inr st' \<Longrightarrow>
     st' = st
     \<or> (\<exists>ep i d. snd e = Some ep \<and> turf_intersect T (fst st) ep = Returns (Some i)
           \<and> turf_difference T (fst st) ep = Returns (Some d) \<and> st' = (d, True))"
  using overlap_step_char [where T = T and st = st and e = e] by simp

lemma overlap_loop_Inl_invalid: "overlap_loop T st es = Inl r \<Longrightarrow> \<not> isValid r"
proof (induction es arbitrary: st)
  case Nil
  then show ?case by simp
next
  case (Cons e es)
  show ?case
  proof (cases "overlap_step T st e")
    case (Inl r')
    with Cons.prems have "r' = r" by simp
    with Inl show ?thesis by (simp add: overlap_step_Inl_invalid)
  next
    case (Inr st')
    with Cons.prems have "overlap_loop T st' es = Inl r" by simp
    then show ?thesis by (rule Cons.IH)
  qed
qed

lemma overlap_step_keeps_trimmed: "overlap_step T (c, True) e = Inr (c', t') \<Longrightarrow> t'"
  using overlap_step_Inr [where T = T and st = "(c, True)" and e = e and st' = "(c', t')"] by auto

lemma overlap_loop_keeps_trimmed: "overlap_loop T (c, True) es = Inr (c', t') \<Longrightarrow> t'"
proof (induction es arbitrary: c)
  case Nil
  then show ?case by simp
next
  case (Cons e es)
  show ?case
  proof (cases "overlap_step T (c, True) e")
    case (Inl r)
    with Cons.prems show ?thesis by simp
  next
    case (Inr st1)
    obtain c1 t1 where st1: "st1 = (c1, t1)" by (cases st1)
    with Inr have "overlap_step T (c, True) e = Inr (c1, t1)" by simp
    then have "t1" by (rule overlap_step_keeps_trimmed)
    moreover from Cons.prems Inr st1 have "overlap_loop T (c1, t1) es = Inr (c', t')" by simp
    ultimately show ?thesis using Cons.IH by simp
  qed
qed

lemma clip_laws_area: "clip_laws T \<Longrightarrow> turf_area T g = Returns (area_of T g)"
proof -
  assume "clip_laws T"
  then obtain x where "turf_area T g = Returns x"
    unfolding clip_laws_def by blast
  then show ?thesis by (simp add: area_of_def)
qed

lemma clip_laws_nonneg: "clip_laws T \<Longrightarrow> 0 \<le> area_of T g"
proof -
  assume "clip_laws T"
  then obtain x where "turf_area T g = Returns x \<and> 0 \<le> x"
    unfolding clip_laws_def by blast
  then show ?thesis by (simp add: area_of_def)
qed

lemma clip_laws_additive:
  assumes "clip_laws T"
    and "turf_difference T a b = Returns (Some d)"
    and "turf_intersect T a b = Returns (Some i)"
  shows "area_of T d = area_of T a - area_of T i"
proof -
  have add: "\<forall>a b d i x y z.
        turf_difference T a b = Returns (Some d) \<and> turf_intersect T a b = Returns (Some i)
        \<and> turf_area T a = Returns x \<and> turf_area T i = Returns y \<and> turf_area T d = Returns z
        \<longrightarrow> z = x - y"
    using assms(1) unfolding clip_laws_def by simp
  have "turf_area T a = Returns (area_of T a)" "turf_area T i = Returns (area_of T i)"
    "turf_area T d = Returns (area_of T d)"
    using assms(1) by (simp_all add: clip_laws_area)
  with assms(2,3) add show ?thesis
    by blast
qed

lemma clip_laws_disjoint:
  "clip_laws T \<Longrightarrow> turf_difference T a b = Returns (Some d) \<Longrightarrow> turf_intersect T d b = Returns None"
  unfolding clip_laws_def by blast

lemma clip_laws_stays_disjoint:
  "clip_laws T \<Longrightarrow> turf_difference T a b = Returns (Some d) \<Longrightarrow>
     turf_intersect T a e = Returns None \<Longrightarrow> turf_intersect T d e = Returns None"
  unfolding clip_laws_def by blast

lemma overlap_step_shrinks:
  assumes "clip_laws T" and "overlap_step T (c, t) e = Inr (c', t')"
  shows "area_of T c' \<le> area_of T c
     \<and> (turf_intersect T c x = Returns None \<longrightarrow> turf_intersect T c' x = Returns None)"
proof (cases "c' = c")
  case True
  then show ?thesis by simp
next
  case False
  with overlap_step_Inr [OF assms(2)] obtain ep i where
    i: "turf_intersect T c ep = Returns (Some i)" and d: "turf_difference T c ep = Returns (Some c')"
    by auto
  have "area_of T c' = area_of T c - area_of T i"
    using assms(1) d i by (rule clip_laws_additive)
  moreover have "0 \<le> area_of T i"
    using assms(1) by (rule clip_laws_nonneg)
  ultimately show ?thesis
    using clip_laws_stays_disjoint [OF assms(1) d] by simp
qed

lemma overlap_loop_shrinks:
  assumes "clip_laws T"
  shows "overlap_loop T (c, t) es = Inr (c', t') \<Longrightarrow>
     area_of T c' \<le> area_of T c
     \<and> (turf_intersect T c x = Returns None \<longrightarrow> turf_intersect T c' x = Returns None)"
proof (induction es arbitrary: c t)
  case Nil
  then show ?case by simp
next
  case (Cons e es)
  show ?case
  proof (cases "overlap_step T (c, t) e")
    case (Inl r)
    with Cons.prems show ?thesis by simp
  next
    case (Inr st1)
    obtain c1 t1 where st1: "st1 = (c1, t1)" by (cases st1)
    from Cons.prems Inr st1 have l: "overlap_loop T (c1, t1) es = Inr (c', t')" by simp
    from Inr st1 have s: "overlap_step T (c, t) e = Inr (c1, t1)" by simp
    from overlap_step_shrinks [OF assms s, of x] Cons.IH [OF l] show ?thesis
      by auto
  qed
qed

section \<open>The grid library satisfies the clipping laws\<close>

lemma cells_of_polygon_cell_ring: "cells_of_polygon [cell_ring c] = [c]"
  by (auto simp: cell_ring_def split: list.splits Coordinate.splits)

lemma concat_cells: "concat (map (cells_of_polygon \<circ> (\<lambda>c. [cell_ring c])) cs) = cs"
  by (induction cs) (simp_all add: cells_of_polygon_cell_ring)

lemma cells_of_of_cells: "of_cells cs = Some g \<Longrightarrow> cells_of g = cs"
  by (auto simp: of_cells_def concat_cells split: if_splits)

lemma of_cells_None: "of_cells cs = None \<longleftrightarrow> cs = []"
  by (simp add: of_cells_def)

lemma grid_difference_cells:
  "turf_difference grid_turf a b = Returns (Some d) \<Longrightarrow>
     cells_of d = filter (\<lambda>c. c \<notin> set (cells_of b)) (cells_of a)"
  by (simp add: grid_turf_def cells_of_of_cells)

lemma grid_intersect_cells:
  "turf_intersect grid_turf a b = Returns (Some i) \<Longrightarrow>
     cells_of i = filter (\<lambda>c. c \<in> set (cells_of b)) (cells_of a)"
  by (simp add: grid_turf_def cells_of_of_cells)

lemma grid_intersect_None:
  "turf_intersect grid_turf a b = Returns None \<longleftrightarrow>
     filter (\<lambda>c. c \<in> set (cells_of b)) (cells_of a) = []"
  by (simp add: grid_turf_def of_cells_None)

lemma grid_area: "turf_area grid_turf g = Returns x \<longleftrightarrow> x = real (length (cells_of g))"
  by (auto simp: grid_turf_def)

lemma grid_turf_laws: "clip_laws grid_turf"
  unfolding clip_laws_def
proof (intro conjI allI impI)
  fix g
  show "\<exists>x. turf_area grid_turf g = Returns x \<and> 0 \<le> x"
    by (simp add: grid_area)
next
  fix a b d i x y z
  assume h: "turf_difference grid_turf a b = Returns (Some d)
      \<and> turf_intersect grid_turf a b = Returns (Some i)
      \<and> turf_area grid_turf a = Returns x \<and> turf_area grid_turf i = Returns y
      \<and> turf_area grid_turf d = Returns z"
  have "length (filter (\<lambda>c. c \<in> set (cells_of b)) (cells_of a))
       + length (filter (\<lambda>c. \<not> c \<in> set (cells_of b)) (cells_of a)) = length (cells_of a)"
    by (rule sum_length_filter_compl)
  moreover from h have "cells_of d = filter (\<lambda>c. c \<notin> set (cells_of b)) (cells_of a)"
    using grid_difference_cells by blast
  moreover from h have "cells_of i = filter (\<lambda>c. c \<in> set (cells_of b)) (cells_of a)"
    using grid_intersect_cells by blast
  ultimately have "length (cells_of i) + length (cells_of d) = length (cells_of a)"
    by simp
  then have "real (length (cells_of i)) + real (length (cells_of d)) = real (length (cells_of a))"
    by (simp only: of_nat_add [symmetric])
  with h show "z = x - y"
    by (simp add: grid_area)
next
  fix a b d
  assume "turf_difference grid_turf a b = Returns (Some d)"
  then have "cells_of d = filter (\<lambda>c. c \<notin> set (cells_of b)) (cells_of a)"
    by (rule grid_difference_cells)
  then show "turf_intersect grid_turf d b = Returns None"
    by (simp add: grid_intersect_None filter_empty_conv)
next
  fix a b d e
  assume h: "turf_difference grid_turf a b = Returns (Some d)
      \<and> turf_intersect grid_turf a e = Returns None"
  then have "cells_of d = filter (\<lambda>c. c \<notin> set (cells_of b)) (cells_of a)"
    using grid_difference_cells by blast
  moreover from h have "filter (\<lambda>c. c \<in> set (cells_of e)) (cells_of a) = []"
    by (simp add: grid_intersect_None)
  ultimately show "turf_intersect grid_turf d e = Returns None"
    by (simp add: grid_intersect_None filter_empty_conv)
qed

section \<open>History of the store\<close>




lemma present_pushToHistory: "present (pushToHistory h fs) = fs"
  by (simp add: pushToHistory_def)


text \<open>Every action either leaves features and history alone, or pushes, or is undo or redo.\<close>

lemma step_cases:
  "(features (step T s a) = features s \<and> history (step T s a) = history s)
   \<or> history (step T s a) = pushToHistory (history s) (features (step T s a))
   \<or> a = Undo \<or> a = Redo"
  by (cases a)
     (auto simp: addFeature_def updateFeature_def removeFeature_def clearFeatures_def
        setFeatures_def importFeatures_def selectFeature_def setError_def addToast_def
        removeToast_def Let_def
        split: option.splits outcome.splits)



text \<open>
  Once there is something to undo or to redo, the feature list and \<open>history.present\<close>
  agree (after a rehydration they differ until the first push).
\<close>

lemma reachable_synced:
  "reachable T s \<Longrightarrow>
     past (history s) \<noteq> [] \<or> future (history s) \<noteq> [] \<Longrightarrow> features s = present (history s)"
proof (induction rule: reachable.induct)
  case reachable_initial
  then show ?case by (simp add: initial_store_def)
next
  case (reachable_rehydrated fs cs)
  then show ?case by (simp add: initial_store_def)
next
  case (reachable_step s a)
  from step_cases [of T s a] show ?case
  proof (elim disjE)
    assume "features (step T s a) = features s \<and> history (step T s a) = history s"
    with reachable_step show ?thesis by simp
  next
    assume "history (step T s a) = pushToHistory (history s) (features (step T s a))"
    then show ?thesis
      by (simp add: present_pushToHistory)
  next
    assume "a = Undo"
    with reachable_step show ?thesis
      by (auto simp: undo_def Let_def)
  next
    assume "a = Redo"
    with reachable_step show ?thesis
      by (auto simp: redo_def Let_def)
  qed
qed

section \<open>Overlap validation\<close>

text \<open>
  Claim C1. Let the candidate convert to the polygon \<open>c0\<close>, let the existing polygons, in
  the order of the feature list, be \<open>pre\<close>, then \<open>ep\<close>, then \<open>rest\<close>, and let the loop
  reach \<open>ep\<close> with the running polygon \<open>cur\<close>, which \<open>ep\<close> intersects. If
  \<open>intersectionArea / currentArea > 0.99\<close> the validation returns the rejection "fully
  contained within an existing polygon"; otherwise, if
  \<open>intersectionArea / existingArea > 0.99\<close>, it returns the rejection "fully contains an
  existing polygon". Both results hold whatever \<open>rest\<close> is, and the first test wins when
  both ratios exceed the threshold.
\<close>

theorem containment_hard_stop:
  assumes "getPolygonFromGeometry T C = Returns (Some c0)"
    and "existingPolygons T fs excludeId = Returns (pre @ (eid, Some ep) # rest)"
    and "overlap_loop T (c0, False) pre = Inr (cur, t)"
    and "turf_intersect T cur ep = Returns (Some i)"
    and "turf_area T cur = Returns currentArea"
    and "turf_area T ep = Returns existingArea"
    and "turf_area T i = Returns intersectionArea"
  shows "(ratio_exceeds intersectionArea currentArea \<longrightarrow>
            validatePolygonOverlap T C fs excludeId = Returns (rejected msg_contained))
       \<and> (\<not> ratio_exceeds intersectionArea currentArea
            \<and> ratio_exceeds intersectionArea existingArea \<longrightarrow>
            validatePolygonOverlap T C fs excludeId = Returns (rejected msg_contains))"
  using assms
  by (simp add: validatePolygonOverlap_def overlap_loop_append overlap_step_def loop_result_def)

theorem containment_hard_stop_witness:
  "validatePolygonOverlap grid_turf (cell 0 0)
     [mk_feature ''far'' rectangle (cell 5 5), mk_feature ''big'' rectangle (block 0 0),
      mk_feature ''twin'' polygon (cell 0 0)] None
     = Returns (rejected msg_contained)
   \<and> validatePolygonOverlap grid_turf (block 0 0)
     [mk_feature ''far'' rectangle (cell 5 5), mk_feature ''small'' circle (cell 0 0),
      mk_feature ''part'' polygon (block 1 1)] None
     = Returns (rejected msg_contains)"
proof -
  have c1: "getPolygonFromGeometry grid_turf (cell 0 0) = Returns (Some (cell 0 0))"
    by code_simp
  have c2: "getPolygonFromGeometry grid_turf (block 0 0) = Returns (Some (block 0 0))"
    by code_simp
  have e1: "existingPolygons grid_turf
       [mk_feature ''far'' rectangle (cell 5 5), mk_feature ''big'' rectangle (block 0 0),
        mk_feature ''twin'' polygon (cell 0 0)] None
     = Returns ([(''far'', Some (cell 5 5))] @ (''big'', Some (block 0 0))
                 # [(''twin'', Some (cell 0 0))])"
    by code_simp
  have e2: "existingPolygons grid_turf
       [mk_feature ''far'' rectangle (cell 5 5), mk_feature ''small'' circle (cell 0 0),
        mk_feature ''part'' polygon (block 1 1)] None
     = Returns ([(''far'', Some (cell 5 5))] @ (''small'', Some (cell 0 0))
                 # [(''part'', Some (block 1 1))])"
    by code_simp
  have l1: "overlap_loop grid_turf (cell 0 0, False) [(''far'', Some (cell 5 5))]
     = Inr (cell 0 0, False)"
    by code_simp
  have l2: "overlap_loop grid_turf (block 0 0, False) [(''far'', Some (cell 5 5))]
     = Inr (block 0 0, False)"
    by code_simp
  have i1: "turf_intersect grid_turf (cell 0 0) (block 0 0)
     = Returns (Some (MultiPolygon [[cell_ring [Num 0, Num 0]]]))"
    by code_simp
  have i2: "turf_intersect grid_turf (block 0 0) (cell 0 0)
     = Returns (Some (MultiPolygon [[cell_ring [Num 0, Num 0]]]))"
    by code_simp
  have a1: "turf_area grid_turf (cell 0 0) = Returns 1"
    by code_simp
  have a4: "turf_area grid_turf (block 0 0) = Returns 4"
    by code_simp
  have ai: "turf_area grid_turf (MultiPolygon [[cell_ring [Num 0, Num 0]]]) = Returns 1"
    by code_simp
  from containment_hard_stop [OF c1 e1 l1 i1 a1 a4 ai]
    containment_hard_stop [OF c2 e2 l2 i2 a4 a1 ai]
  show ?thesis
    by (simp add: ratio_exceeds_def)
qed

text \<open>
  Claim C2. In the situation of C1, let both containment ratios lie strictly between 0 and
  0.99. Then the validation rejects with "completely removed after trimming" when the
  difference of the running polygon and \<open>ep\<close> is empty, and otherwise goes on through
  \<open>rest\<close> with that difference as the running polygon and the trimmed flag set. Every
  accepted result carries a trimmed geometry; for a clipping library that satisfies
  \<open>clip_laws\<close>, its area is strictly less than the area of the candidate and it does not
  intersect \<open>ep\<close>.
\<close>

theorem trim_partial_overlap:
  assumes "getPolygonFromGeometry T C = Returns (Some c0)"
    and "existingPolygons T fs excludeId = Returns (pre @ (eid, Some ep) # rest)"
    and "overlap_loop T (c0, False) pre = Inr (cur, t)"
    and "turf_intersect T cur ep = Returns (Some i)"
    and "turf_area T cur = Returns currentArea"
    and "turf_area T ep = Returns existingArea"
    and "turf_area T i = Returns intersectionArea"
    and "0 < intersectionArea / currentArea" and "intersectionArea / currentArea < 99 / 100"
    and "0 < intersectionArea / existingArea" and "intersectionArea / existingArea < 99 / 100"
  shows "(turf_difference T cur ep = Returns None \<longrightarrow>
            validatePolygonOverlap T C fs excludeId = Returns (rejected msg_removed))
       \<and> (\<forall>d. turf_difference T cur ep = Returns (Some d) \<longrightarrow>
            validatePolygonOverlap T C fs excludeId
              = Returns (loop_result (overlap_loop T (d, True) rest)))
       \<and> (\<forall>r. validatePolygonOverlap T C fs excludeId = Returns r \<and> isValid r \<longrightarrow>
            (\<exists>final. trimmedGeometry r = Some final
               \<and> (clip_laws T \<longrightarrow>
                    (\<exists>x y. turf_area T final = Returns x \<and> turf_area T c0 = Returns y \<and> x < y)
                    \<and> turf_intersect T final ep = Returns None)))"
proof -
  have ca: "currentArea \<noteq> 0" and ea: "existingArea \<noteq> 0"
    using assms(8,10) by auto
  have no1: "\<not> ratio_exceeds intersectionArea currentArea"
    and no2: "\<not> ratio_exceeds intersectionArea existingArea"
    using assms(9,11) ca ea by (simp_all add: ratio_exceeds_def)
  have step: "overlap_step T (cur, t) (eid, Some ep) =
      (case turf_difference T cur ep of
         Throws \<Rightarrow> Inl (rejected msg_failed)
       | Returns None \<Rightarrow> Inl (rejected msg_removed)
       | Returns (Some d) \<Rightarrow> Inr (d, True))"
    using assms(4-7) no1 no2 by (simp add: overlap_step_def)
  have whole: "validatePolygonOverlap T C fs excludeId =
      Returns (loop_result
        (case overlap_step T (cur, t) (eid, Some ep) of
           Inl r \<Rightarrow> Inl r
         | Inr st' \<Rightarrow> overlap_loop T st' rest))"
    using assms(1-3) by (simp add: validatePolygonOverlap_def overlap_loop_append)
  show ?thesis
  proof (intro conjI allI impI)
    assume "turf_difference T cur ep = Returns None"
    then show "validatePolygonOverlap T C fs excludeId = Returns (rejected msg_removed)"
      by (simp add: whole step loop_result_def)
  next
    fix d
    assume "turf_difference T cur ep = Returns (Some d)"
    then show "validatePolygonOverlap T C fs excludeId
        = Returns (loop_result (overlap_loop T (d, True) rest))"
      by (simp add: whole step)
  next
    fix r
    assume r: "validatePolygonOverlap T C fs excludeId = Returns r \<and> isValid r"
    have inv: "\<not> isValid (rejected m)" for m
      by (simp add: rejected_def)
    from r obtain d where d: "turf_difference T cur ep = Returns (Some d)"
      using inv by (cases "turf_difference T cur ep")
        (auto simp: whole step loop_result_def split: option.splits)
    with r have res: "r = loop_result (overlap_loop T (d, True) rest)"
      by (simp add: whole step)
    from r res obtain final tf where fin: "overlap_loop T (d, True) rest = Inr (final, tf)"
      by (cases "overlap_loop T (d, True) rest")
        (auto simp: loop_result_def dest: overlap_loop_Inl_invalid)
    then have "tf" by (rule overlap_loop_keeps_trimmed)
    with res fin have tg: "trimmedGeometry r = Some final"
      by (simp add: loop_result_def accepted_def)
    have geo: "(\<exists>x y. turf_area T final = Returns x \<and> turf_area T c0 = Returns y \<and> x < y)
        \<and> turf_intersect T final ep = Returns None" if laws: "clip_laws T"
    proof -
      have "area_of T cur \<le> area_of T c0"
        using overlap_loop_shrinks [OF laws assms(3)] by simp
      moreover have "area_of T d = area_of T cur - area_of T i"
        using laws d assms(4) by (rule clip_laws_additive)
      moreover have "area_of T i = intersectionArea" "area_of T cur = currentArea"
        using assms(5,7) by (simp_all add: area_of_def)
      moreover have "0 \<le> currentArea"
        using clip_laws_nonneg [OF laws, of cur] assms(5) by (simp add: area_of_def)
      then have "0 < intersectionArea"
        using assms(8) ca by (simp add: zero_less_divide_iff)
      moreover have "area_of T final \<le> area_of T d"
        using overlap_loop_shrinks [OF laws fin] by simp
      ultimately have "area_of T final < area_of T c0"
        by simp
      moreover have "turf_intersect T d ep = Returns None"
        using laws d by (rule clip_laws_disjoint)
      then have "turf_intersect T final ep = Returns None"
        using overlap_loop_shrinks [OF laws fin] by simp
      ultimately show ?thesis
        using clip_laws_area [OF laws] by blast
    qed
    from tg geo show "\<exists>final. trimmedGeometry r = Some final
        \<and> (clip_laws T \<longrightarrow>
             (\<exists>x y. turf_area T final = Returns x \<and> turf_area T c0 = Returns y \<and> x < y)
             \<and> turf_intersect T final ep = Returns None)"
      by blast
  qed
qed

theorem trim_partial_overlap_witness:
  "validatePolygonOverlap grid_turf (block 1 1)
     [mk_feature ''far'' rectangle (cell 5 5), mk_feature ''r1'' rectangle (block 0 0),
      mk_feature ''r3'' polygon (block 2 2)] None
     = Returns (accepted (Some (MultiPolygon [[cell_ring [Num 2, Num 1]], [cell_ring [Num 1, Num 2]]])))
   \<and> (\<exists>x y. turf_area grid_turf (MultiPolygon [[cell_ring [Num 2, Num 1]], [cell_ring [Num 1, Num 2]]]) = Returns x
         \<and> turf_area grid_turf (block 1 1) = Returns y \<and> x < y)
   \<and> turf_intersect grid_turf (MultiPolygon [[cell_ring [Num 2, Num 1]], [cell_ring [Num 1, Num 2]]]) (block 0 0)
       = Returns None"
proof -
  let ?fs = "[mk_feature ''far'' rectangle (cell 5 5), mk_feature ''r1'' rectangle (block 0 0),
      mk_feature ''r3'' polygon (block 2 2)]"
  let ?final = "MultiPolygon [[cell_ring [Num 2, Num 1]], [cell_ring [Num 1, Num 2]]]"
  have c: "getPolygonFromGeometry grid_turf (block 1 1) = Returns (Some (block 1 1))"
    by code_simp
  have e: "existingPolygons grid_turf ?fs None
     = Returns ([(''far'', Some (cell 5 5))] @ (''r1'', Some (block 0 0))
                 # [(''r3'', Some (block 2 2))])"
    by code_simp
  have l: "overlap_loop grid_turf (block 1 1, False) [(''far'', Some (cell 5 5))]
     = Inr (block 1 1, False)"
    by code_simp
  have i: "turf_intersect grid_turf (block 1 1) (block 0 0)
     = Returns (Some (MultiPolygon [[cell_ring [Num 1, Num 1]]]))"
    by code_simp
  have a1: "turf_area grid_turf (block 1 1) = Returns 4"
    by code_simp
  have a2: "turf_area grid_turf (block 0 0) = Returns 4"
    by code_simp
  have ai: "turf_area grid_turf (MultiPolygon [[cell_ring [Num 1, Num 1]]]) = Returns 1"
    by code_simp
  have v: "validatePolygonOverlap grid_turf (block 1 1) ?fs None = Returns (accepted (Some ?final))"
    by code_simp
  have "\<forall>r. validatePolygonOverlap grid_turf (block 1 1) ?fs None = Returns r \<and> isValid r \<longrightarrow>
          (\<exists>final. trimmedGeometry r = Some final
             \<and> (clip_laws grid_turf \<longrightarrow>
                  (\<exists>x y. turf_area grid_turf final = Returns x
                     \<and> turf_area grid_turf (block 1 1) = Returns y \<and> x < y)
                  \<and> turf_intersect grid_turf final (block 0 0) = Returns None))"
    using trim_partial_overlap [OF c e l i a1 a2 ai] by simp
  with v grid_turf_laws
  have "(\<exists>x y. turf_area grid_turf ?final = Returns x
                     \<and> turf_area grid_turf (block 1 1) = Returns y \<and> x < y)
                  \<and> turf_intersect grid_turf ?final (block 0 0) = Returns None"
    by (auto simp: accepted_def)
  with v show ?thesis by simp
qed

text \<open>
  Claim C5. Validating any geometry with kind \<open>line\<close> returns the accepting result that
  carries no trimmed geometry (the caller keeps its geometry as it is) and leaves the
  hook's cache untouched, whatever the committed features are; and the overlap validation
  itself accepts every \<open>LineString\<close> in the same way, before it looks at any existing
  feature.
\<close>

theorem line_exempt:
  "validateNewPolygon T fs cache now L line = (Returns (accepted None), cache)
   \<and> validatePolygonOverlap T (LineString cs) fs excludeId = Returns (accepted None)"
  by (simp add: validateNewPolygon_def isPolygonalShape_def validatePolygonOverlap_def
      getPolygonFromGeometry_def)

text \<open>
  Claim C7, as the code has it. When the candidate and the existing features convert to
  polygons and, while the existing polygon \<open>ep\<close> is processed, \<open>turf.intersect\<close>, one of
  the three \<open>turf.area\<close> calls or \<open>turf.difference\<close> throws, the validation returns the
  rejection "Failed to validate polygon overlap"; in general it returns a result, and does
  not throw, once those conversions have returned. The validation does not look at the
  coordinates itself: when the feature list holds no polygonal feature other than the
  excluded one (it may hold lines, and the feature being edited), every candidate that
  converts to a polygon is accepted.
\<close>

theorem clipping_failure_rejected:
  "(getPolygonFromGeometry T C = Returns (Some c0)
      \<and> existingPolygons T fs excludeId = Returns (pre @ (eid, Some ep) # rest)
      \<and> overlap_loop T (c0, False) pre = Inr (cur, t)
      \<and> (turf_intersect T cur ep = Throws
          \<or> (\<exists>i. turf_intersect T cur ep = Returns (Some i)
                \<and> (turf_area T cur = Throws \<or> turf_area T ep = Throws \<or> turf_area T i = Throws
                    \<or> (\<exists>ca ea ia. turf_area T cur = Returns ca \<and> turf_area T ep = Returns ea
                          \<and> turf_area T i = Returns ia
                          \<and> \<not> ratio_exceeds ia ca \<and> \<not> ratio_exceeds ia ea
                          \<and> turf_difference T cur ep = Throws))))
      \<longrightarrow> validatePolygonOverlap T C fs excludeId = Returns (rejected msg_failed))
   \<and> (getPolygonFromGeometry T C = Returns (Some c0)
      \<and> existingPolygons T fs excludeId = Returns eps
      \<longrightarrow> (\<exists>r. validatePolygonOverlap T C fs excludeId = Returns r))
   \<and> (getPolygonFromGeometry T C = Returns (Some c0)
      \<and> (\<forall>f \<in> set fs. \<not> isPolygonalShape (shapeType f) \<or> Some (feature_id f) = excludeId)
      \<longrightarrow> validatePolygonOverlap T C fs excludeId = Returns (accepted None))"
proof (intro conjI impI)
  assume h: "getPolygonFromGeometry T C = Returns (Some c0)
      \<and> existingPolygons T fs excludeId = Returns (pre @ (eid, Some ep) # rest)
      \<and> overlap_loop T (c0, False) pre = Inr (cur, t)
      \<and> (turf_intersect T cur ep = Throws
          \<or> (\<exists>i. turf_intersect T cur ep = Returns (Some i)
                \<and> (turf_area T cur = Throws \<or> turf_area T ep = Throws \<or> turf_area T i = Throws
                    \<or> (\<exists>ca ea ia. turf_area T cur = Returns ca \<and> turf_area T ep = Returns ea
                          \<and> turf_area T i = Returns ia
                          \<and> \<not> ratio_exceeds ia ca \<and> \<not> ratio_exceeds ia ea
                          \<and> turf_difference T cur ep = Throws))))"
  then have "overlap_step T (cur, t) (eid, Some ep) = Inl (rejected msg_failed)"
    by (auto simp: overlap_step_def split: outcome.split)
  with h show "validatePolygonOverlap T C fs excludeId = Returns (rejected msg_failed)"
    by (simp add: validatePolygonOverlap_def overlap_loop_append loop_result_def)
next
  assume "getPolygonFromGeometry T C = Returns (Some c0)
      \<and> existingPolygons T fs excludeId = Returns eps"
  then show "\<exists>r. validatePolygonOverlap T C fs excludeId = Returns r"
    by (simp add: validatePolygonOverlap_def)
next
  assume h: "getPolygonFromGeometry T C = Returns (Some c0)
      \<and> (\<forall>f \<in> set fs. \<not> isPolygonalShape (shapeType f) \<or> Some (feature_id f) = excludeId)"
  then have "filter (\<lambda>f. isPolygonalShape (shapeType f) \<and> Some (feature_id f) \<noteq> excludeId) fs = []"
    by (auto simp: filter_empty_conv)
  then have "existingPolygons T fs excludeId = Returns []"
    by (simp add: existingPolygons_def)
  with h show "validatePolygonOverlap T C fs excludeId = Returns (accepted None)"
    by (simp add: validatePolygonOverlap_def loop_result_def)
qed

theorem clipping_failure_rejected_witness:
  "validatePolygonOverlap failing_turf (cell 0 0) [mk_feature ''a'' polygon (block 0 0)] None
     = Returns (rejected msg_failed)
   \<and> validatePolygonOverlap grid_turf (cell 0 0)
       [mk_feature ''l'' line (LineString [[Num 0, Num 0], [Num 1, Num 1]]),
        mk_feature ''self'' polygon (block 0 0)] (Some ''self'')
     = Returns (accepted None)"
proof -
  have c: "getPolygonFromGeometry failing_turf (cell 0 0) = Returns (Some (cell 0 0))"
    by code_simp
  have e: "existingPolygons failing_turf [mk_feature ''a'' polygon (block 0 0)] None
     = Returns ([] @ (''a'', Some (block 0 0)) # [])"
    by code_simp
  have l: "overlap_loop failing_turf (cell 0 0, False) [] = Inr (cell 0 0, False)"
    by simp
  have i: "turf_intersect failing_turf (cell 0 0) (block 0 0) = Throws"
    by code_simp
  have c': "getPolygonFromGeometry grid_turf (cell 0 0) = Returns (Some (cell 0 0))"
    by code_simp
  have n: "\<forall>f \<in> set [mk_feature ''l'' line (LineString [[Num 0, Num 0], [Num 1, Num 1]]),
                       mk_feature ''self'' polygon (block 0 0)].
             \<not> isPolygonalShape (shapeType f) \<or> Some (feature_id f) = Some ''self''"
    by (simp add: mk_feature_def isPolygonalShape_def)
  from clipping_failure_rejected [of failing_turf "cell 0 0" "cell 0 0"
      "[mk_feature ''a'' polygon (block 0 0)]" None "[]" "''a''" "block 0 0" "[]" "cell 0 0" False]
    c e l i
  have first: "validatePolygonOverlap failing_turf (cell 0 0)
      [mk_feature ''a'' polygon (block 0 0)] None = Returns (rejected msg_failed)"
    by simp
  from clipping_failure_rejected [of grid_turf "cell 0 0" "cell 0 0"
      "[mk_feature ''l'' line (LineString [[Num 0, Num 0], [Num 1, Num 1]]),
        mk_feature ''self'' polygon (block 0 0)]" "Some ''self''"]
    c' n
  have second: "validatePolygonOverlap grid_turf (cell 0 0)
       [mk_feature ''l'' line (LineString [[Num 0, Num 0], [Num 1, Num 1]]),
        mk_feature ''self'' polygon (block 0 0)] (Some ''self'')
     = Returns (accepted None)"
    by blast
  from first second show ?thesis by simp
qed

text \<open>
  The claim as stated fails on malformed candidates. A closed ring with a \<open>NaN\<close>
  coordinate passes the \<open>Polygon\<close> constructor, which compares only the first and the
  last position, and is accepted when the store is empty. So is an open ring of two
  positions as a \<open>MultiPolygon\<close>, whose constructor checks nothing. The same open ring as
  a \<open>Polygon\<close> makes the constructor throw before the \<open>try\<close> block is entered, and the
  validation throws with it.
\<close>

theorem malformed_candidate_counterexample:
  "validatePolygonOverlap grid_turf
      (Polygon [[[Num 0, Num 0], [NaN, Num 1], [Num 1, Num 1], [Num 0, Num 0]]]) [] None
     = Returns (accepted None)
   \<and> validatePolygonOverlap grid_turf (MultiPolygon [[[[Num 0, Num 0], [Num 1, Num 1]]]]) [] None
     = Returns (accepted None)
   \<and> validatePolygonOverlap grid_turf (Polygon [[[Num 0, Num 0], [Num 1, Num 1]]]) [] None = Throws"
  by code_simp

section \<open>The store\<close>

text \<open>
  Claim C3, evaluated on the code. A polygon is added to the empty store and removed
  again: the store then holds no polygon, yet its polygon counter still reads 1, since
  \<open>removeFeature\<close> does not write \<open>shapeCounts\<close>. Likewise \<open>importFeatures\<close> appends a
  polygon and leaves the counter at 0.
\<close>

theorem removeFeature_counter_stale:
  "getFeatureCount
      (removeFeature
         (snd (addFeature grid_turf initial_store (cell 0 0) polygon no_properties (fresh 0)))
         ''feature-0'') polygon = 0
   \<and> shapeCounts
      (removeFeature
         (snd (addFeature grid_turf initial_store (cell 0 0) polygon no_properties (fresh 0)))
         ''feature-0'') polygon = 1
   \<and> getFeatureCount (importFeatures initial_store [mk_feature ''a'' polygon (cell 0 0)]) polygon = 1
   \<and> shapeCounts (importFeatures initial_store [mk_feature ''a'' polygon (cell 0 0)]) polygon = 0"
  by code_simp



text \<open>
  Claim C6. The limits are 10 polygons, 5 rectangles, 5 circles and 20 lines. When the
  store already holds as many features of a kind as its limit allows (or more),
  \<open>addFeature\<close> for that kind returns \<open>null\<close> instead of an id, records the limit message
  in \<open>error\<close>, and leaves the feature list, the history, the selection and the shape
  counters as they were; the number of features of the kind does not change.
\<close>

theorem limit_enforced:
  assumes "shapeLimits st \<le> getFeatureCount s st"
  shows "shapeLimits polygon = 10 \<and> shapeLimits rectangle = 5
     \<and> shapeLimits circle = 5 \<and> shapeLimits line = 20
     \<and> fst (addFeature T s g st ps fr) = Returns None
     \<and> features (snd (addFeature T s g st ps fr)) = features s
     \<and> history (snd (addFeature T s g st ps fr)) = history s
     \<and> shapeCounts (snd (addFeature T s g st ps fr)) = shapeCounts s
     \<and> selectedFeatureId (snd (addFeature T s g st ps fr)) = selectedFeatureId s
     \<and> error (snd (addFeature T s g st ps fr)) =
           Some (''Maximum '' @ number_toString (shapeLimits st) @ '' ''
                  @ shapeType_string st @ ''(s) allowed. Limit reached.'')
     \<and> getFeatureCount (snd (addFeature T s g st ps fr)) st = getFeatureCount s st"
  using assms by (simp add: addFeature_def getFeatureCount_def Let_def)

theorem limit_enforced_witness:
  "getFeatureCount (run grid_turf initial_store (add_polygons 10)) polygon = 10
   \<and> fst (addFeature grid_turf (run grid_turf initial_store (add_polygons 10))
            (cell 10 0) polygon no_properties (fresh 10)) = Returns None
   \<and> getFeatureCount
        (snd (addFeature grid_turf (run grid_turf initial_store (add_polygons 10))
               (cell 10 0) polygon no_properties (fresh 10))) polygon = 10
   \<and> error (snd (addFeature grid_turf (run grid_turf initial_store (add_polygons 10))
               (cell 10 0) polygon no_properties (fresh 10)))
       = Some ''Maximum 10 polygon(s) allowed. Limit reached.''"
proof -
  have n: "getFeatureCount (run grid_turf initial_store (add_polygons 10)) polygon = 10"
    by code_simp
  have m: "''Maximum '' @ number_toString (shapeLimits polygon) @ '' ''
             @ shapeType_string polygon @ ''(s) allowed. Limit reached.''
           = ''Maximum 10 polygon(s) allowed. Limit reached.''"
    by code_simp
  from limit_enforced [of polygon "run grid_turf initial_store (add_polygons 10)" grid_turf
      "cell 10 0" no_properties "fresh 10"] n m
  show ?thesis by simp
qed

text \<open>
  Claim C8, as the code has it. For an id that no feature of the store carries,
  \<open>updateFeature\<close> returns normally and leaves the whole store as it was, without
  recording any error; \<open>removeFeature\<close> leaves the feature list, the shape counters, the
  error field and the toasts as they were.
\<close>

theorem stale_id_noop:
  assumes "fid \<notin> feature_id ` set (features s)"
  shows "updateFeature T s fid g = (Returns (), s)
     \<and> features (removeFeature s fid) = features s
     \<and> shapeCounts (removeFeature s fid) = shapeCounts s
     \<and> error (removeFeature s fid) = error s
     \<and> toasts (removeFeature s fid) = toasts s"
proof -
  have "find (\<lambda>f. feature_id f = fid) (features s) = None"
    using assms by (auto simp: find_None_iff)
  moreover have "filter (\<lambda>f. feature_id f \<noteq> fid) (features s) = features s"
    using assms by (auto simp: filter_id_conv)
  ultimately show ?thesis
    by (simp add: updateFeature_def removeFeature_def Let_def)
qed

theorem stale_id_noop_witness:
  "updateFeature grid_turf (setFeatures initial_store [mk_feature ''a'' polygon (cell 0 0)])
      ''ghost'' (cell 1 1)
     = (Returns (), setFeatures initial_store [mk_feature ''a'' polygon (cell 0 0)])
   \<and> features (removeFeature (setFeatures initial_store [mk_feature ''a'' polygon (cell 0 0)])
        ''ghost'') = [mk_feature ''a'' polygon (cell 0 0)]"
proof -
  have "''ghost'' \<notin> feature_id `
      set (features (setFeatures initial_store [mk_feature ''a'' polygon (cell 0 0)]))"
    by (simp add: setFeatures_def mk_feature_def)
  from stale_id_noop [OF this, of grid_turf "cell 1 1"] show ?thesis
    by (simp add: setFeatures_def)
qed

text \<open>
  The claim as stated fails: \<open>removeFeature\<close> with an id the empty store does not hold
  pushes a history entry, and after an undo it empties \<open>future\<close>, so the redo is lost;
  and neither operation records an error.
\<close>

theorem stale_id_counterexample:
  "features initial_store = []
   \<and> removeFeature initial_store ''ghost'' \<noteq> initial_store
   \<and> past (history initial_store) = []
   \<and> past (history (removeFeature initial_store ''ghost'')) = [[]]
   \<and> future (history (undo (setFeatures initial_store [mk_feature ''a'' polygon (cell 0 0)])))
       = [[mk_feature ''a'' polygon (cell 0 0)]]
   \<and> future (history (removeFeature
        (undo (setFeatures initial_store [mk_feature ''a'' polygon (cell 0 0)])) ''ghost'')) = []
   \<and> error (removeFeature initial_store ''ghost'') = None
   \<and> error (snd (updateFeature grid_turf initial_store ''ghost'' (cell 0 0))) = None"
proof -
  have "past (history (removeFeature initial_store ''ghost'')) = [[]]"
    by code_simp
  moreover have "past (history initial_store) = []"
    by code_simp
  ultimately have "removeFeature initial_store ''ghost'' \<noteq> initial_store"
    by auto
  moreover have "features initial_store = []"
    by code_simp
  moreover have
    "future (history (undo (setFeatures initial_store [mk_feature ''a'' polygon (cell 0 0)])))
       = [[mk_feature ''a'' polygon (cell 0 0)]]"
    by code_simp
  moreover have "future (history (removeFeature
        (undo (setFeatures initial_store [mk_feature ''a'' polygon (cell 0 0)])) ''ghost'')) = []"
    by code_simp
  moreover have "error (removeFeature initial_store ''ghost'') = None"
    by code_simp
  moreover have "error (snd (updateFeature grid_turf initial_store ''ghost'' (cell 0 0))) = None"
    by code_simp
  moreover note \<open>past (history (removeFeature initial_store ''ghost'')) = [[]]\<close>
    \<open>past (history initial_store) = []\<close>
  ultimately show ?thesis by blast
qed

text \<open>
  Claim C10. In every reachable state of the store whose \<open>past\<close> is not empty, \<open>undo\<close>
  followed by \<open>redo\<close> gives back the state itself: the feature list, \<open>past\<close>, \<open>present\<close>
  and \<open>future\<close>, and every other field.
\<close>

theorem undo_redo_identity:
  assumes "reachable T s" and "past (history s) \<noteq> []"
  shows "redo (undo s) = s"
proof -
  have "features s = present (history s)"
    using assms by (simp add: reachable_synced)
  then show ?thesis
    using assms(2) by (simp add: undo_def redo_def Let_def)
qed

theorem undo_redo_identity_witness:
  "past (history (step grid_turf initial_store (SetFeatures [mk_feature ''a'' polygon (cell 0 0)])))
     = [[]]
   \<and> redo (undo (step grid_turf initial_store (SetFeatures [mk_feature ''a'' polygon (cell 0 0)])))
     = step grid_turf initial_store (SetFeatures [mk_feature ''a'' polygon (cell 0 0)])"
proof -
  have p: "past (history (step grid_turf initial_store
      (SetFeatures [mk_feature ''a'' polygon (cell 0 0)]))) = [[]]"
    by code_simp
  have r: "reachable grid_turf (step grid_turf initial_store
      (SetFeatures [mk_feature ''a'' polygon (cell 0 0)]))"
    by (rule reachable_step [OF reachable_initial])
  from undo_redo_identity [OF r] p show ?thesis
    by simp
qed

section \<open>Import\<close>

text \<open>
  Claim C9, evaluated on the code. A file with the same unit square twice is imported
  into the empty store. Both squares are committed, untrimmed, and the message reports two
  imported features and nothing skipped: the second square is validated against the
  features of the store only, not against the first square, which the validation rejects
  as fully contained when it is given it as an existing feature.
\<close>

theorem import_batch_not_revalidated:
  "map geometry
      (features (handleFileSelect grid_turf initial_store empty_cache
                   [file_square 1, file_square 2] ''toast-1''))
     = [cell 0 0, cell 0 0]
   \<and> map message
      (toasts (handleFileSelect grid_turf initial_store empty_cache
                 [file_square 1, file_square 2] ''toast-1''))
     = [''Successfully imported 2 feature(s).'']
   \<and> validatePolygonOverlap grid_turf (cell 0 0)
        [hd (features (handleFileSelect grid_turf initial_store empty_cache
                         [file_square 1, file_square 2] ''toast-1''))] None
     = Returns (rejected msg_contained)"
  by code_simp

end
